theory Spec2Isabelle
  imports Complex_Main "HOL-Library.Word"
begin

unbundle bit_operations_syntax

section \<open>Coherence accumulator (coherence_field_py.py)\<close>

text \<open>
  Python floats are modelled as exact reals: every property below is a property of the
  arithmetic the source writes down, not of IEEE rounding.  Python's unbounded integers
  are \<open>int\<close>.
\<close>

record Accumulator =
  coherence :: real
  earned_floor :: real
  interaction_count :: int

text \<open>\<open>_Accumulator.__init__\<close> with its default arguments.\<close>

definition Accumulator_init :: Accumulator where
  "Accumulator_init = \<lparr>coherence = 0.0, earned_floor = 0.0, interaction_count = 0\<rparr>"

text \<open>
  \<open>_Accumulator.positive_interaction(curiosity, alone)\<close>: the three assignments in the
  order of the source; the floor is computed from the already updated coherence.
\<close>

definition positive_interaction :: "real \<Rightarrow> bool \<Rightarrow> Accumulator \<Rightarrow> Accumulator" where
  "positive_interaction curiosity alone acc =
     (let gain = curiosity * 0.12;
          acc1 = acc\<lparr>coherence := min 1.0 (coherence acc + gain)\<rparr>;
          acc2 = acc1\<lparr>earned_floor := min (coherence acc1) (earned_floor acc1 + gain * 0.3)\<rparr>
      in acc2\<lparr>interaction_count := interaction_count acc2 + 1\<rparr>)"

definition negative_interaction :: "real \<Rightarrow> Accumulator \<Rightarrow> Accumulator" where
  "negative_interaction recovery acc =
     (let decay = 0.15 * (1.0 - recovery);
          acc1 = acc\<lparr>coherence := max (earned_floor acc) (coherence acc - decay)\<rparr>
      in acc1\<lparr>interaction_count := interaction_count acc1 + 1\<rparr>)"

definition effective_coherence :: "Accumulator \<Rightarrow> real \<Rightarrow> real" where
  "effective_coherence acc instant =
     (let ctx = coherence acc
      in if ctx < 0.3 then min instant ctx else 0.3 * instant + 0.7 * ctx)"

text \<open>
  A call made on an accumulator, and the accumulator states seen after each call of a
  sequence of calls (the state after the first call, after the second, ...).
\<close>

datatype interaction = PositiveInteraction real | NegativeInteraction real

fun interact :: "interaction \<Rightarrow> Accumulator \<Rightarrow> Accumulator" where
  "interact (PositiveInteraction curiosity) acc = positive_interaction curiosity False acc"
| "interact (NegativeInteraction recovery) acc = negative_interaction recovery acc"

fun unit_param :: "interaction \<Rightarrow> bool" where
  "unit_param (PositiveInteraction curiosity) = (0 \<le> curiosity \<and> curiosity \<le> 1)"
| "unit_param (NegativeInteraction recovery) = (0 \<le> recovery \<and> recovery \<le> 1)"

fun states_after :: "Accumulator \<Rightarrow> interaction list \<Rightarrow> Accumulator list" where
  "states_after acc [] = []"
| "states_after acc (c # cs) = interact c acc # states_after (interact c acc) cs"

definition acc_inv :: "Accumulator \<Rightarrow> bool" where
  "acc_inv acc = (0 \<le> earned_floor acc \<and> earned_floor acc \<le> coherence acc \<and> coherence acc \<le> 1)"

text \<open>
  Exceptions of the Python source that the model keeps apart.  KeyboardInterrupt and
  SystemExit derive from BaseException only; all the others derive from Exception, so an
  \<open>except Exception\<close> clause catches exactly those.
\<close>

datatype py_error =
  KeyError | ValueError | TypeError | AttributeError | OSError | CcfLoadError
  | OverflowError | UnicodeDecodeError | RecursionError | KeyboardInterrupt | SystemExit

fun is_Exception :: "py_error \<Rightarrow> bool" where
  "is_Exception KeyboardInterrupt = False"
| "is_Exception SystemExit = False"
| "is_Exception e = True"

text \<open>
  \<open>CoherenceFieldPy\<close>: the two personality parameters and the dict of accumulators,
  keyed by context hash.  Every method takes the field and returns its result together
  with the field as the call leaves it, so that what a method writes is visible.
\<close>

record CoherenceFieldPy =
  curiosity_drive :: real
  recovery_rate :: real
  accumulators :: "int \<rightharpoonup> Accumulator"

definition CoherenceFieldPy_init :: "real \<Rightarrow> real \<Rightarrow> py_error + CoherenceFieldPy" where
  "CoherenceFieldPy_init curiosity recovery =
     (if \<not> (0.0 \<le> curiosity \<and> curiosity \<le> 1.0) then Inl ValueError
      else if \<not> (0.0 \<le> recovery \<and> recovery \<le> 1.0) then Inl ValueError
      else Inr \<lparr>curiosity_drive = curiosity, recovery_rate = recovery,
                accumulators = Map.empty\<rparr>)"

definition get_or_create :: "int \<Rightarrow> CoherenceFieldPy \<Rightarrow> Accumulator \<times> CoherenceFieldPy" where
  "get_or_create context_hash fld =
     (case accumulators fld context_hash of
        None \<Rightarrow> (Accumulator_init,
                 fld\<lparr>accumulators := (accumulators fld)(context_hash \<mapsto> Accumulator_init)\<rparr>)
      | Some acc \<Rightarrow> (acc, fld))"

text \<open>
  The accumulator returned by \<open>_get_or_create\<close> is the object stored in the dict, so the
  update made through it is an update of the dict entry.
\<close>

definition CoherenceFieldPy_positive_interaction ::
    "int \<Rightarrow> bool \<Rightarrow> CoherenceFieldPy \<Rightarrow> unit \<times> CoherenceFieldPy" where
  "CoherenceFieldPy_positive_interaction context_hash alone fld =
     (let (acc, fld1) = get_or_create context_hash fld
      in ((), fld1\<lparr>accumulators := (accumulators fld1)
                (context_hash \<mapsto> positive_interaction (curiosity_drive fld1) alone acc)\<rparr>))"

definition CoherenceFieldPy_negative_interaction ::
    "int \<Rightarrow> CoherenceFieldPy \<Rightarrow> unit \<times> CoherenceFieldPy" where
  "CoherenceFieldPy_negative_interaction context_hash fld =
     (let (acc, fld1) = get_or_create context_hash fld
      in ((), fld1\<lparr>accumulators := (accumulators fld1)
                (context_hash \<mapsto> negative_interaction (recovery_rate fld1) acc)\<rparr>))"

definition CoherenceFieldPy_effective_coherence ::
    "int \<Rightarrow> real \<Rightarrow> CoherenceFieldPy \<Rightarrow> real \<times> CoherenceFieldPy" where
  "CoherenceFieldPy_effective_coherence context_hash instant fld =
     (case accumulators fld context_hash of
        None \<Rightarrow>
          (let ctx = (0.0 :: real)
           in if ctx < 0.3 then (min instant ctx, fld) else (0.3 * instant + 0.7 * ctx, fld))
      | Some acc \<Rightarrow> (effective_coherence acc instant, fld))"

definition CoherenceFieldPy_raw_coherence ::
    "int \<Rightarrow> CoherenceFieldPy \<Rightarrow> real \<times> CoherenceFieldPy" where
  "CoherenceFieldPy_raw_coherence context_hash fld =
     (case accumulators fld context_hash of
        None \<Rightarrow> (0.0, fld)
      | Some acc \<Rightarrow> (coherence acc, fld))"

definition CoherenceFieldPy_interaction_count ::
    "int \<Rightarrow> CoherenceFieldPy \<Rightarrow> int \<times> CoherenceFieldPy" where
  "CoherenceFieldPy_interaction_count context_hash fld =
     (case accumulators fld context_hash of
        None \<Rightarrow> (0, fld)
      | Some acc \<Rightarrow> (interaction_count acc, fld))"

section \<open>Context fingerprint (text_context_key.py)\<close>

definition FNV_OFFSET_BASIS :: int where "FNV_OFFSET_BASIS = 2166136261"
definition FNV_PRIME :: int where "FNV_PRIME = 16777619"

text \<open>
  \<open>_fnv1a(*values)\<close> on Python's unbounded integers: the body of the inner loop for one
  \<open>byte_pos\<close>, the inner loop over \<open>range(4)\<close>, and the outer loop over the values.
\<close>

definition fnv1a_byte :: "int \<Rightarrow> int \<Rightarrow> nat \<Rightarrow> int" where
  "fnv1a_byte v h byte_pos =
     (let byte = drop_bit (byte_pos * 8) v AND 0xFF;
          h1 = h XOR byte
      in (h1 * FNV_PRIME) AND 0xFFFFFFFF)"

definition fnv1a_value :: "int \<Rightarrow> int \<Rightarrow> int" where
  "fnv1a_value h v = foldl (fnv1a_byte v) h [0 ..< 4]"

definition fnv1a :: "int list \<Rightarrow> int" where
  "fnv1a values = foldl fnv1a_value FNV_OFFSET_BASIS values"

record TextContextKey =
  topic_domain :: int
  conversation_depth :: int
  emotional_register :: int
  time_of_day :: int
  session_phase :: int

text \<open>Construction runs \<open>__post_init__\<close>, which raises ValueError on a field out of range.\<close>

definition TextContextKey_init ::
    "int \<Rightarrow> int \<Rightarrow> int \<Rightarrow> int \<Rightarrow> int \<Rightarrow> py_error + TextContextKey" where
  "TextContextKey_init topic depth register tod phase =
     (if \<not> (0 \<le> topic \<and> topic \<le> 63) then Inl ValueError
      else if \<not> (0 \<le> depth \<and> depth \<le> 2) then Inl ValueError
      else if \<not> (0 \<le> register \<and> register \<le> 3) then Inl ValueError
      else if \<not> (0 \<le> tod \<and> tod \<le> 3) then Inl ValueError
      else if \<not> (0 \<le> phase \<and> phase \<le> 2) then Inl ValueError
      else Inr \<lparr>topic_domain = topic, conversation_depth = depth,
                emotional_register = register, time_of_day = tod, session_phase = phase\<rparr>)"

definition context_hash :: "TextContextKey \<Rightarrow> int" where
  "context_hash k =
     fnv1a [topic_domain k, conversation_depth k, emotional_register k,
            time_of_day k, session_phase k]"

text \<open>
  The hash as the specification words it: 32-bit FNV-1a, byte by byte, over the
  little-endian 4-byte encodings of the five fields in declaration order.
\<close>

definition spec_le_bytes :: "int \<Rightarrow> 8 word list" where
  "spec_le_bytes v =
     (let w = (word_of_int v :: 32 word)
      in [ucast w, ucast (drop_bit 8 w), ucast (drop_bit 16 w), ucast (drop_bit 24 w)])"

definition spec_fnv1a_32 :: "8 word list \<Rightarrow> 32 word" where
  "spec_fnv1a_32 bytes = foldl (\<lambda>h b. (h XOR ucast b) * 16777619) 2166136261 bytes"

definition spec_hash :: "TextContextKey \<Rightarrow> 32 word" where
  "spec_hash k =
     spec_fnv1a_32 (concat (map spec_le_bytes
       [topic_domain k, conversation_depth k, emotional_register k,
        time_of_day k, session_phase k]))"

text \<open>
  Strings are lists of characters with code points below 256.  \<open>str.lower()\<close> there
  lowers A-Z and the Latin-1 capitals (192-222 except the multiplication sign 215);
  \<open>str.split()\<close> splits on runs of whitespace, which below 256 are the code points 9-13,
  28-32, 133 and 160; \<open>str.strip(chars)\<close> as the source uses it.
\<close>

definition lower_char :: "char \<Rightarrow> char" where
  "lower_char c =
     (let n = (of_char c :: nat)
      in if (65 \<le> n \<and> n \<le> 90) \<or> (192 \<le> n \<and> n \<le> 222 \<and> n \<noteq> 215)
         then char_of (n + 32) else c)"

definition lower :: "string \<Rightarrow> string" where
  "lower s = map lower_char s"

definition is_space :: "char \<Rightarrow> bool" where
  "is_space c =
     (let n = (of_char c :: nat)
      in (9 \<le> n \<and> n \<le> 13) \<or> (28 \<le> n \<and> n \<le> 32) \<or> n = 133 \<or> n = 160)"

fun split_acc :: "string \<Rightarrow> string \<Rightarrow> string list" where
  "split_acc cur [] = (if cur = [] then [] else [rev cur])"
| "split_acc cur (c # cs) =
     (if is_space c then (if cur = [] then split_acc [] cs else rev cur # split_acc [] cs)
      else split_acc (c # cur) cs)"

definition split :: "string \<Rightarrow> string list" where
  "split s = split_acc [] s"

definition strip :: "char list \<Rightarrow> string \<Rightarrow> string" where
  "strip chars s =
     rev (dropWhile (\<lambda>c. c \<in> set chars) (rev (dropWhile (\<lambda>c. c \<in> set chars) s)))"

text \<open>\<open>ConversationDepth\<close>, \<open>EmotionalRegister\<close>, \<open>TimeOfDay\<close>, \<open>SessionPhase\<close>.\<close>

definition ConversationDepth_from_turn_count :: "int \<Rightarrow> int" where
  "ConversationDepth_from_turn_count turn_count =
     (if turn_count \<le> 3 then 0 else if turn_count \<le> 15 then 1 else 2)"

definition ConversationDepth_from_label :: "string \<Rightarrow> py_error + int" where
  "ConversationDepth_from_label label =
     (case map_of [(''shallow'', 0), (''moderate'', 1), (''deep'', 2)] (lower label) of
        None \<Rightarrow> Inl ValueError
      | Some result \<Rightarrow> Inr result)"

definition WARM_WORDS :: "string list" where
  "WARM_WORDS =
     [''love'', ''thank'', ''grateful'', ''appreciate'', ''wonderful'', ''happy'', ''joy'',
      ''friend'', ''family'', ''care'', ''kind'', ''warm'', ''nice'']"

definition VULNERABLE_WORDS :: "string list" where
  "VULNERABLE_WORDS =
     [''anxiety'', ''afraid'', ''scared'', ''nervous'', ''worry'', ''struggle'',
      ''difficult'', ''hard'', ''overwhelm'', ''sad'', ''loss'', ''grief'', ''depressed'',
      ''lonely'', ''alone'', ''cry'', ''hurt'']"

definition INTENSE_WORDS :: "string list" where
  "INTENSE_WORDS =
     [''urgent'', ''emergency'', ''crisis'', ''panic'', ''furious'', ''rage'', ''hate'',
      ''desperate'', ''critical'', ''immediately'', ''now'', ''must'']"

definition EmotionalRegister_from_text :: "string \<Rightarrow> int" where
  "EmotionalRegister_from_text text =
     (let words = remdups (split (lower text))
      in if \<exists>w \<in> set words. w \<in> set INTENSE_WORDS then 3
         else if \<exists>w \<in> set words. w \<in> set VULNERABLE_WORDS then 2
         else if \<exists>w \<in> set words. w \<in> set WARM_WORDS then 1
         else 0)"

definition EmotionalRegister_from_label :: "string \<Rightarrow> py_error + int" where
  "EmotionalRegister_from_label label =
     (case map_of [(''neutral'', 0), (''warm'', 1), (''vulnerable'', 2), (''intense'', 3)]
             (lower label) of
        None \<Rightarrow> Inl ValueError
      | Some result \<Rightarrow> Inr result)"

text \<open>\<open>TimeOfDay.now()\<close> reads the local clock; the hour it reads is a parameter.\<close>

definition TimeOfDay_now :: "int \<Rightarrow> int" where
  "TimeOfDay_now hour =
     (if 5 \<le> hour \<and> hour < 12 then 0
      else if 12 \<le> hour \<and> hour < 17 then 1
      else if 17 \<le> hour \<and> hour < 21 then 2
      else 3)"

definition SessionPhase_from_turn_count :: "int \<Rightarrow> int" where
  "SessionPhase_from_turn_count turn_count =
     (if turn_count \<le> 3 then 0 else if turn_count \<le> 20 then 1 else 2)"

definition KEYWORD_CLUSTERS :: "(string list \<times> int) list" where
  "KEYWORD_CLUSTERS =
    [([''finance'', ''money'', ''invest'', ''stock'', ''market'', ''budget'', ''saving'',
     ''wealth'', ''portfolio'', ''dividend'', ''compound'', ''interest'', ''bond'',
     ''fund'', ''personal'', ''financial''], 0),
     ([''tax'', ''taxation'', ''irs'', ''deduction'', ''filing'', ''return'', ''income'',
     ''withhold''], 1),
     ([''estate'', ''inheritance'', ''will'', ''trust'', ''beneficiary'', ''probate'',
     ''planning'', ''heir''], 2),
     ([''crypto'', ''bitcoin'', ''ethereum'', ''blockchain'', ''defi'', ''nft'', ''token'',
     ''wallet'', ''cryptocurrency''], 3),
     ([''health'', ''exercise'', ''fitness'', ''gym'', ''workout'', ''diet'',
     ''nutrition'', ''weight'', ''run'', ''yoga'', ''meditat''], 4),
     ([''medical'', ''doctor'', ''symptom'', ''diagnosis'', ''treatment'', ''medication'',
     ''hospital'', ''surgery'', ''therapy''], 5),
     ([''mental'', ''anxiety'', ''depression'', ''stress'', ''counseling'', ''psychology'',
     ''mindful'', ''emotional'', ''wellbeing''], 6),
     ([''sleep'', ''insomnia'', ''rest'', ''fatigue'', ''tired'', ''nap'', ''circadian''],
     7),
     ([''code'', ''programming'', ''software'', ''developer'', ''python'', ''javascript'',
     ''rust'', ''algorithm'', ''debug'', ''git''], 8),
     ([''ai'', ''artificial'', ''intelligence'', ''machine'', ''learning'', ''neural'',
     ''model'', ''llm'', ''gpt'', ''claude''], 9),
     ([''robot'', ''autonomous'', ''sensor'', ''embedded'', ''hardware'',
     ''microcontroller''], 10),
     ([''cloud'', ''aws'', ''azure'', ''gcp'', ''kubernetes'', ''docker'', ''devops'',
     ''deploy''], 11),
     ([''relationship'', ''partner'', ''dating'', ''marriage'', ''divorce'', ''breakup'',
     ''love'', ''romance'', ''attraction''], 12),
     ([''family'', ''parent'', ''child'', ''sibling'', ''mother'', ''father'',
     ''children''], 13),
     ([''friend'', ''friendship'', ''social'', ''community'', ''networking'',
     ''connection''], 14),
     ([''conflict'', ''argument'', ''disagree'', ''boundary'', ''communication'',
     ''assertive''], 15),
     ([''career'', ''job'', ''work'', ''resume'', ''interview'', ''salary'', ''promotion'',
     ''workplace'', ''professional''], 16),
     ([''startup'', ''entrepreneur'', ''business'', ''venture'', ''founder'', ''company''],
     17),
     ([''management'', ''leadership'', ''team'', ''meeting'', ''productivity'', ''agile''],
     18),
     ([''creative'', ''design'', ''art'', ''write'', ''writing'', ''author'', ''paint'',
     ''draw''], 19),
     ([''study'', ''learn'', ''course'', ''university'', ''school'', ''education'',
     ''degree''], 20),
     ([''science'', ''research'', ''experiment'', ''hypothesis'', ''data'', ''analysis''],
     21),
     ([''math'', ''calculus'', ''algebra'', ''statistic'', ''probability'', ''number''],
     22),
     ([''history'', ''historical'', ''ancient'', ''civilization'', ''war'', ''empire''],
     23),
     ([''food'', ''cook'', ''recipe'', ''restaurant'', ''eat'', ''cuisine'', ''meal''],
     24),
     ([''travel'', ''trip'', ''vacation'', ''flight'', ''hotel'', ''country'', ''abroad''],
     25),
     ([''home'', ''house'', ''interior'', ''renovate'', ''garden'', ''decor'',
     ''furniture''], 26),
     ([''hobby'', ''game'', ''sport'', ''music'', ''movie'', ''book'', ''entertainment''],
     27),
     ([''philosophy'', ''ethics'', ''moral'', ''value'', ''meaning'', ''purpose'',
     ''existential''], 28),
     ([''religion'', ''spiritual'', ''faith'', ''belief'', ''prayer'', ''god'',
     ''universe''], 29),
     ([''politic'', ''government'', ''policy'', ''vote'', ''democracy'', ''election''],
     30),
     ([''environment'', ''climate'', ''sustainable'', ''eco'', ''green'', ''carbon''], 31)]"

text \<open>
  \<open>_keyword_cluster\<close>: the token set, then the loop over the table carrying
  \<open>(best_cluster, best_score)\<close>; the score is the size of the intersection of the token
  set with the cluster's keyword set.
\<close>

definition keyword_step :: "string list \<Rightarrow> int \<times> nat \<Rightarrow> string list \<times> int \<Rightarrow> int \<times> nat" where
  "keyword_step tokens best entry =
     (let score = length (filter (\<lambda>t. t \<in> set (fst entry)) tokens)
      in if score > snd best then (snd entry, score) else best)"

definition keyword_cluster :: "string \<Rightarrow> int" where
  "keyword_cluster text =
     (let tokens = remdups (map (strip [CHR ''.'', CHR '','', CHR ''?'', CHR ''!'', CHR '';'',
                                        CHR '':'', CHR 0x27, CHR 0x22])
                                 (split (lower text)))
      in fst (foldl (keyword_step tokens) (32, 0) KEYWORD_CLUSTERS))"

text \<open>
  \<open>_sentence_transformer_cluster\<close>: the embedding collaborator is outside the repository;
  \<open>centroid_argmax text\<close> is its answer, \<open>None\<close> when the library is not installed or no
  centroids are loaded, and then keyword matching decides.
\<close>

definition sentence_transformer_cluster :: "(string \<Rightarrow> int option) \<Rightarrow> string \<Rightarrow> int" where
  "sentence_transformer_cluster centroid_argmax text =
     (case centroid_argmax text of Some c \<Rightarrow> c | None \<Rightarrow> keyword_cluster text)"

text \<open>
  The arguments of \<open>TextContextKey.from_text\<close>.  \<open>depth\<close> is declared \<open>str | int\<close> with
  default \<open>"moderate"\<close>: \<open>None\<close> below is a call that does not pass it, \<open>DepthOther\<close> a
  value that is neither a str nor an int.  \<open>register\<close> is \<open>None\<close>, a str or an int.
\<close>

datatype depth_arg = DepthStr string | DepthInt int | DepthOther

datatype register_arg = RegisterNone | RegisterStr string | RegisterInt int

definition from_text ::
    "int \<Rightarrow> (string \<Rightarrow> int option) \<Rightarrow> string \<Rightarrow> depth_arg option \<Rightarrow> register_arg \<Rightarrow> int
       \<Rightarrow> bool \<Rightarrow> py_error + TextContextKey" where
  "from_text hour centroid_argmax text depth_opt register turn_count use_embeddings =
     (let depth = (case depth_opt of None \<Rightarrow> DepthStr ''moderate'' | Some d \<Rightarrow> d);
          topic = (if use_embeddings then sentence_transformer_cluster centroid_argmax text
                   else keyword_cluster text);
          depth_res = (case depth of
                         DepthStr s \<Rightarrow> ConversationDepth_from_label s
                       | DepthInt n \<Rightarrow> Inr n
                       | DepthOther \<Rightarrow> Inr (ConversationDepth_from_turn_count turn_count))
      in case depth_res of
           Inl e \<Rightarrow> Inl e
         | Inr depth_int \<Rightarrow>
             (let register_res = (case register of
                                    RegisterNone \<Rightarrow> Inr (EmotionalRegister_from_text text)
                                  | RegisterStr s \<Rightarrow> EmotionalRegister_from_label s
                                  | RegisterInt n \<Rightarrow> Inr n)
              in case register_res of
                   Inl e \<Rightarrow> Inl e
                 | Inr register_int \<Rightarrow>
                     TextContextKey_init topic depth_int register_int (TimeOfDay_now hour)
                       (SessionPhase_from_turn_count turn_count)))"

section \<open>Phase classifier (social_phase.py)\<close>

datatype SocialPhase =
  ShyObserver | BuildingTrust | QuietlyBeloved | ProtectiveGuardian | StartledRetreat

definition UPPER_SHY_TO_BUILDING :: real where "UPPER_SHY_TO_BUILDING = 0.35"
definition LOWER_BUILDING_TO_SHY :: real where "LOWER_BUILDING_TO_SHY = 0.28"
definition UPPER_BUILDING_TO_BELOVED :: real where "UPPER_BUILDING_TO_BELOVED = 0.55"
definition LOWER_BELOVED_TO_BUILDING :: real where "LOWER_BELOVED_TO_BUILDING = 0.45"
definition GUARDIAN_TENSION :: real where "GUARDIAN_TENSION = 0.30"
definition STARTLE_TENSION :: real where "STARTLE_TENSION = 0.20"

lemmas thresholds =
  UPPER_SHY_TO_BUILDING_def LOWER_BUILDING_TO_SHY_def UPPER_BUILDING_TO_BELOVED_def
  LOWER_BELOVED_TO_BUILDING_def GUARDIAN_TENSION_def STARTLE_TENSION_def

definition classify_phase :: "real \<Rightarrow> real \<Rightarrow> SocialPhase \<Rightarrow> SocialPhase" where
  "classify_phase effective_coh instant prev_phase =
     (if effective_coh \<ge> 0.55 \<and> instant < GUARDIAN_TENSION then ProtectiveGuardian
      else if effective_coh < 0.35 \<and> instant < STARTLE_TENSION then StartledRetreat
      else if prev_phase = ShyObserver then
        (if effective_coh \<ge> UPPER_SHY_TO_BUILDING then BuildingTrust else ShyObserver)
      else if prev_phase = BuildingTrust then
        (if effective_coh < LOWER_BUILDING_TO_SHY then ShyObserver
         else if effective_coh \<ge> UPPER_BUILDING_TO_BELOVED then QuietlyBeloved
         else BuildingTrust)
      else if prev_phase = QuietlyBeloved then
        (if effective_coh < LOWER_BELOVED_TO_BUILDING then BuildingTrust else QuietlyBeloved)
      else if effective_coh \<ge> UPPER_BUILDING_TO_BELOVED then QuietlyBeloved
      else if effective_coh \<ge> UPPER_SHY_TO_BUILDING then BuildingTrust
      else ShyObserver)"

text \<open>
  The caller (\<open>CcfOllama.chat\<close>) feeds the phase returned by one tick back as the previous
  phase of the next: \<open>self._phase = classify_phase(eff_coh, instant_signal, self._phase)\<close>.
  \<open>phases_after\<close> lists the phase after each tick of a sequence of
  (effective coherence, instant) pairs.
\<close>

fun phases_after :: "SocialPhase \<Rightarrow> (real \<times> real) list \<Rightarrow> SocialPhase list" where
  "phases_after prev [] = []"
| "phases_after prev ((e, i) # ticks) =
     classify_phase e i prev # phases_after (classify_phase e i prev) ticks"

section \<open>Python values and JSON documents\<close>

text \<open>
  The values \<open>json.load\<close> returns and \<open>json.dump\<close> accepts: None, bool, int, float, str,
  list, and dict with string keys.  A float is a finite value, taken as an exact real, or
  one of inf, -inf and nan, which \<open>json.load\<close> returns for \<open>Infinity\<close> or \<open>1e999\<close>,
  \<open>-Infinity\<close> and \<open>NaN\<close>.  A dict is an association list in insertion order; lookup
  takes the first entry of a key.
\<close>

datatype pyfloat = Finite real | PosInf | NegInf | NaN

datatype pyval =
  PNone | PBool bool | PInt int | PFloat pyfloat | PStr string
  | PList "pyval list" | PDict "(string \<times> pyval) list"

type_synonym pydict = "(string \<times> pyval) list"

text \<open>
  The builtins \<open>float(s)\<close> and \<open>int(s)\<close> on a str parse its text and raise ValueError when
  it is no number; \<open>str(v)\<close> on a value that is not a str prints it.  What they compute on
  text is the interpreter's business, not the repository's, and is taken as a parameter:
  \<open>float_of_str\<close> and \<open>int_of_str\<close> return \<open>None\<close> where the builtin raises ValueError.
\<close>

record builtins =
  float_of_str :: "string \<Rightarrow> pyfloat option"
  int_of_str :: "string \<Rightarrow> int option"
  str_of :: "pyval \<Rightarrow> string"

text \<open>
  An instance for evaluating the model on inputs in which no str reaches \<open>float()\<close> or
  \<open>int()\<close> and only a str reaches \<open>str()\<close>; there the choice of the instance is immaterial.
\<close>

definition builtins_unused :: builtins where
  "builtins_unused =
     \<lparr>float_of_str = (\<lambda>s. None), int_of_str = (\<lambda>s. None), str_of = (\<lambda>v. [])\<rparr>"

definition bind_err :: "py_error + 'a \<Rightarrow> ('a \<Rightarrow> py_error + 'b) \<Rightarrow> py_error + 'b" where
  "bind_err m f = (case m of Inl e \<Rightarrow> Inl e | Inr x \<Rightarrow> f x)"

text \<open>
  \<open>float()\<close> of an int raises OverflowError when the int rounds beyond the largest double,
  that is from \<open>2 ^ 1024 - 2 ^ 970\<close> on in absolute value.
\<close>

definition FLOAT_INT_BOUND :: int where "FLOAT_INT_BOUND = 2 ^ 1024 - 2 ^ 970"

fun py_float :: "builtins \<Rightarrow> pyval \<Rightarrow> py_error + pyfloat" where
  "py_float B PNone = Inl TypeError"
| "py_float B (PBool b) = Inr (Finite (if b then 1 else 0))"
| "py_float B (PInt n) =
     (if \<bar>n\<bar> \<ge> FLOAT_INT_BOUND then Inl OverflowError else Inr (Finite (real_of_int n)))"
| "py_float B (PFloat x) = Inr x"
| "py_float B (PStr s) = (case float_of_str B s of None \<Rightarrow> Inl ValueError | Some r \<Rightarrow> Inr r)"
| "py_float B (PList xs) = Inl TypeError"
| "py_float B (PDict d) = Inl TypeError"

text \<open>
  \<open>int()\<close> of a finite float truncates towards zero; of inf or -inf it raises
  OverflowError, of nan ValueError.
\<close>

fun py_int :: "builtins \<Rightarrow> pyval \<Rightarrow> py_error + int" where
  "py_int B PNone = Inl TypeError"
| "py_int B (PBool b) = Inr (if b then 1 else 0)"
| "py_int B (PInt n) = Inr n"
| "py_int B (PFloat (Finite r)) = Inr (if 0 \<le> r then \<lfloor>r\<rfloor> else \<lceil>r\<rceil>)"
| "py_int B (PFloat PosInf) = Inl OverflowError"
| "py_int B (PFloat NegInf) = Inl OverflowError"
| "py_int B (PFloat NaN) = Inl ValueError"
| "py_int B (PStr s) = (case int_of_str B s of None \<Rightarrow> Inl ValueError | Some n \<Rightarrow> Inr n)"
| "py_int B (PList xs) = Inl TypeError"
| "py_int B (PDict d) = Inl TypeError"

definition py_str :: "builtins \<Rightarrow> pyval \<Rightarrow> string" where
  "py_str B v = (case v of PStr s \<Rightarrow> s | _ \<Rightarrow> str_of B v)"

text \<open>
  \<open>d.get(k, default)\<close> and \<open>d[k]\<close> on a dict, and the same on any value: \<open>.get\<close> exists on
  a dict only (AttributeError otherwise), and subscripting with a str key works on a dict
  only (TypeError otherwise, KeyError for a missing key).
\<close>

definition dict_get :: "pydict \<Rightarrow> string \<Rightarrow> pyval \<Rightarrow> pyval" where
  "dict_get d k dflt = (case map_of d k of None \<Rightarrow> dflt | Some v \<Rightarrow> v)"

definition dict_item :: "pydict \<Rightarrow> string \<Rightarrow> py_error + pyval" where
  "dict_item d k = (case map_of d k of None \<Rightarrow> Inl KeyError | Some v \<Rightarrow> Inr v)"

definition py_get :: "pyval \<Rightarrow> string \<Rightarrow> pyval \<Rightarrow> py_error + pyval" where
  "py_get obj k dflt = (case obj of PDict d \<Rightarrow> Inr (dict_get d k dflt) | _ \<Rightarrow> Inl AttributeError)"

definition py_item :: "pyval \<Rightarrow> string \<Rightarrow> py_error + pyval" where
  "py_item obj k = (case obj of PDict d \<Rightarrow> dict_item d k | _ \<Rightarrow> Inl TypeError)"

text \<open>\<open>v > n\<close> for an int \<open>n\<close>: defined on numbers (a bool is the int 0 or 1).\<close>

fun py_gt_int :: "pyval \<Rightarrow> int \<Rightarrow> py_error + bool" where
  "py_gt_int (PInt m) n = Inr (m > n)"
| "py_gt_int (PFloat (Finite r)) n = Inr (r > real_of_int n)"
| "py_gt_int (PFloat PosInf) n = Inr True"
| "py_gt_int (PFloat NegInf) n = Inr False"
| "py_gt_int (PFloat NaN) n = Inr False"
| "py_gt_int (PBool b) n = Inr ((if b then 1 else 0) > n)"
| "py_gt_int v n = Inl TypeError"

text \<open>
  What a \<open>for\<close> loop iterates over: the elements of a list, the characters of a str, the
  keys of a dict; the other values are not iterable.
\<close>

fun py_iter :: "pyval \<Rightarrow> py_error + pyval list" where
  "py_iter (PList xs) = Inr xs"
| "py_iter (PStr s) = Inr (map (\<lambda>c. PStr [c]) s)"
| "py_iter (PDict d) = Inr (map PStr (remdups (map fst d)))"
| "py_iter v = Inl TypeError"

text \<open>\<open>d[k] = v\<close>: replaces the value of a present key in place, appends a new key.\<close>

fun dict_set :: "('k \<times> 'v) list \<Rightarrow> 'k \<Rightarrow> 'v \<Rightarrow> ('k \<times> 'v) list" where
  "dict_set [] k v = [(k, v)]"
| "dict_set ((k', v') # d) k v = (if k' = k then (k, v) # d else (k', v') # dict_set d k v)"

fun map_err :: "('a \<Rightarrow> py_error + 'b) \<Rightarrow> 'a list \<Rightarrow> py_error + 'b list" where
  "map_err f [] = Inr []"
| "map_err f (x # xs) =
     bind_err (f x) (\<lambda>y. bind_err (map_err f xs) (\<lambda>ys. Inr (y # ys)))"

text \<open>
  \<open>_Accumulator.from_dict\<close> (coherence_field_py.py).  The accumulator record holds real
  numbers; the result is \<open>None\<close> when the accumulator built holds inf, -inf or nan, which
  that record does not represent.
\<close>

definition Accumulator_from_dict ::
    "builtins \<Rightarrow> pydict \<Rightarrow> py_error + Accumulator option" where
  "Accumulator_from_dict B data =
     bind_err (py_float B (dict_get data ''coherence'' (PFloat (Finite 0.0)))) (\<lambda>c.
     bind_err (py_float B (dict_get data ''earned_floor'' (PFloat (Finite 0.0)))) (\<lambda>f.
     bind_err (py_int B (dict_get data ''interaction_count'' (PInt 0))) (\<lambda>n.
     Inr (case (c, f) of
            (Finite c', Finite f') \<Rightarrow>
              Some \<lparr>coherence = c', earned_floor = f', interaction_count = n\<rparr>
          | _ \<Rightarrow> None))))"

section \<open>Persistence store (persistence.py)\<close>

text \<open>
  The file system is a map from paths to file contents.  A content is told apart by what
  \<open>open\<close> and \<open>json.load\<close> do with it: \<open>Json_text v\<close> is the text \<open>json.dump\<close> writes for
  \<open>v\<close>, which \<open>json.load\<close> reads back as \<open>v\<close>; \<open>Bad_text t\<close> is a text that \<open>json.load\<close>
  rejects with JSONDecodeError; \<open>Unreadable\<close> is a file whose opening raises OSError;
  \<open>Not_utf8\<close> is a file whose bytes are not UTF-8, on which reading raises
  UnicodeDecodeError; \<open>Too_deep\<close> is JSON nested so deeply that \<open>json.load\<close> raises
  RecursionError.
\<close>

datatype file_content = Json_text pyval | Bad_text string | Unreadable | Not_utf8 | Too_deep

type_synonym filesystem = "string \<rightharpoonup> file_content"

definition CCF_SCHEMA_VERSION :: int where "CCF_SCHEMA_VERSION = 1"

text \<open>
  One entry of the \<open>contexts\<close> list comprehension of \<open>save\<close>.  The keys of
  \<open>accumulators\<close> are ints, on which \<open>int(ctx_hash)\<close> is the identity.
\<close>

definition save_record :: "builtins \<Rightarrow> int \<times> pydict \<Rightarrow> py_error + pyval" where
  "save_record B item =
     (let ctx_hash = fst item; acc = snd item
      in bind_err (dict_item acc ''coherence'') (\<lambda>cv.
         bind_err (py_float B cv) (\<lambda>c.
         bind_err (dict_item acc ''earned_floor'') (\<lambda>fv.
         bind_err (py_float B fv) (\<lambda>f.
         bind_err (dict_item acc ''interaction_count'') (\<lambda>nv.
         bind_err (py_int B nv) (\<lambda>n.
         Inr (PDict [(''ctx_hash'', PInt ctx_hash),
                     (''coherence'', PFloat c),
                     (''earned_floor'', PFloat f),
                     (''interaction_count'', PInt n),
                     (''last_phase'',
                        PStr (py_str B (dict_get acc ''last_phase'' (PStr ''ShyObserver''))))
                    ]))))))))"

text \<open>
  The \<open>state\<close> dict of \<open>save\<close>; \<open>saved_at\<close> is the text of the clock reading
  \<open>datetime.now(timezone.utc).isoformat()\<close>.
\<close>

definition save_state ::
    "builtins \<Rightarrow> string \<Rightarrow> (int \<times> pydict) list \<Rightarrow> pydict \<Rightarrow> string \<Rightarrow> py_error + pyval" where
  "save_state B saved_at accs personality ccf_version =
     bind_err (py_float B (dict_get personality ''curiosity'' (PFloat (Finite 0.5)))) (\<lambda>curiosity.
     bind_err (py_float B (dict_get personality ''recovery'' (PFloat (Finite 0.5)))) (\<lambda>recovery.
     bind_err (map_err (save_record B) accs) (\<lambda>contexts.
     Inr (PDict [(''version'', PInt CCF_SCHEMA_VERSION),
                 (''ccf_version'', PStr ccf_version),
                 (''saved_at'', PStr saved_at),
                 (''personality'',
                    PDict [(''curiosity'', PFloat curiosity), (''recovery'', PFloat recovery)]),
                 (''contexts'', PList contexts)]))))"

text \<open>
  The failure injected into one call of \<open>save\<close>: none, or an OSError raised by
  \<open>mkdir\<close> or by \<open>mkstemp\<close>, or an exception raised inside the \<open>try\<close> block by the
  write of the temporary file (which then holds the text written so far) or by
  \<open>os.replace\<close>.  The exception raised inside the \<open>try\<close> block is any exception, also
  one that is no Exception (KeyboardInterrupt, SystemExit).  \<open>raised\<close> is the exception a
  fault raises.
\<close>

datatype fault =
  No_fault | Mkdir_fails | Mkstemp_fails | Write_fails py_error string | Replace_fails py_error


text \<open>
  \<open>os.unlink\<close>: removes the file; it raises OSError when there is no such file, and
  also, leaving the file in place, when the file system refuses (\<open>refused\<close>).
\<close>

definition unlink :: "bool \<Rightarrow> string \<Rightarrow> filesystem \<Rightarrow> (py_error + unit) \<times> filesystem" where
  "unlink refused p fs =
     (if refused \<or> fs p = None then (Inl OSError, fs) else (Inr (), fs(p := None)))"

text \<open>\<open>os.replace(src, dst)\<close>: one step that renames \<open>src\<close> over \<open>dst\<close>.\<close>

definition replace_file :: "string \<Rightarrow> string \<Rightarrow> filesystem \<Rightarrow> filesystem" where
  "replace_file src dst fs = (if src = dst then fs else (fs(dst := fs src))(src := None))"

text \<open>
  The \<open>except Exception\<close> clause of \<open>save\<close>, as the file systems it adds to the history:
  for an Exception it calls \<open>os.unlink\<close> on the temporary file and ignores an OSError from
  it; an exception that is no Exception passes the clause by, and nothing is cleaned up.
  Either way the exception goes on to the caller.
\<close>

definition save_except :: "bool \<Rightarrow> string \<Rightarrow> py_error \<Rightarrow> filesystem \<Rightarrow> filesystem list" where
  "save_except unlink_refused tmp_path e fs =
     (if is_Exception e then [snd (unlink unlink_refused tmp_path fs)] else [])"

text \<open>
  \<open>CcfPersistence.save\<close>.  \<open>tmp_path\<close> is the name \<open>mkstemp\<close> chooses; \<open>unlink_refused\<close>
  says whether the clean-up \<open>os.unlink\<close> is refused.  The result is the outcome of the call
  together with the file system as it is before the call and after each of its file
  operations, in order; the last element is the file system the call leaves.
\<close>

definition save ::
    "builtins \<Rightarrow> string \<Rightarrow> string \<Rightarrow> fault \<Rightarrow> bool \<Rightarrow> (int \<times> pydict) list \<Rightarrow> pydict
       \<Rightarrow> string \<Rightarrow> string \<Rightarrow> filesystem \<Rightarrow> (py_error + unit) \<times> filesystem list" where
  "save B saved_at tmp_path flt unlink_refused accs personality path ccf_version fs =
     (case save_state B saved_at accs personality ccf_version of
        Inl e \<Rightarrow> (Inl e, [fs])
      | Inr state \<Rightarrow>
          if flt = Mkdir_fails then (Inl OSError, [fs])
          else if flt = Mkstemp_fails then (Inl OSError, [fs])
          else
            (let fs1 = fs(tmp_path \<mapsto> Bad_text [])
             in case flt of
                  Write_fails e partial \<Rightarrow>
                    (let fs2 = fs1(tmp_path \<mapsto> Bad_text partial)
                     in (Inl e, [fs, fs1, fs2] @ save_except unlink_refused tmp_path e fs2))
                | _ \<Rightarrow>
                    (let fs2 = fs1(tmp_path \<mapsto> Json_text state)
                     in case flt of
                          Replace_fails e \<Rightarrow>
                            (Inl e, [fs, fs1, fs2] @ save_except unlink_refused tmp_path e fs2)
                        | _ \<Rightarrow> (Inr (), [fs, fs1, fs2, replace_file tmp_path path fs2]))))"

text \<open>The body of the \<open>try\<close> in the loop of \<open>load\<close>: the key and the dict it stores.\<close>

definition load_record :: "builtins \<Rightarrow> pyval \<Rightarrow> py_error + int \<times> pydict" where
  "load_record B ctx_record =
     bind_err (py_item ctx_record ''ctx_hash'') (\<lambda>hv.
     bind_err (py_int B hv) (\<lambda>ctx_hash.
     bind_err (py_get ctx_record ''coherence'' (PFloat (Finite 0.0))) (\<lambda>cv.
     bind_err (py_float B cv) (\<lambda>c.
     bind_err (py_get ctx_record ''earned_floor'' (PFloat (Finite 0.0))) (\<lambda>fv.
     bind_err (py_float B fv) (\<lambda>f.
     bind_err (py_get ctx_record ''interaction_count'' (PInt 0)) (\<lambda>nv.
     bind_err (py_int B nv) (\<lambda>n.
     bind_err (py_get ctx_record ''last_phase'' (PStr ''ShyObserver'')) (\<lambda>pv.
     Inr (ctx_hash,
          [(''coherence'', PFloat c),
           (''earned_floor'', PFloat f),
           (''interaction_count'', PInt n),
           (''last_phase'', PStr (py_str B pv))]))))))))))"

text \<open>
  The loop of \<open>load\<close> over the context records: KeyError, ValueError and TypeError skip
  the record, any other exception (OverflowError) leaves the loop and \<open>load\<close>.
\<close>

fun load_contexts ::
    "builtins \<Rightarrow> pyval list \<Rightarrow> (int \<times> pydict) list \<Rightarrow> py_error + (int \<times> pydict) list" where
  "load_contexts B [] accs = Inr accs"
| "load_contexts B (r # rs) accs =
     (case load_record B r of
        Inr (ctx_hash, d) \<Rightarrow> load_contexts B rs (dict_set accs ctx_hash d)
      | Inl e \<Rightarrow>
          if e = KeyError \<or> e = ValueError \<or> e = TypeError then load_contexts B rs accs
          else Inl e)"

text \<open>\<open>load\<close> from the parsed \<open>state\<close> on.\<close>

definition load_state ::
    "builtins \<Rightarrow> pyval \<Rightarrow> py_error + ((int \<times> pydict) list option \<times> pydict option)" where
  "load_state B state =
     bind_err (py_get state ''version'' (PInt 1)) (\<lambda>version.
     bind_err (py_gt_int version CCF_SCHEMA_VERSION) (\<lambda>newer.
     if newer then Inl CcfLoadError
     else
       bind_err (py_get state ''personality'' (PDict [])) (\<lambda>p1.
       bind_err (py_get p1 ''curiosity'' (PFloat (Finite 0.5))) (\<lambda>cv.
       bind_err (py_float B cv) (\<lambda>curiosity.
       bind_err (py_get state ''personality'' (PDict [])) (\<lambda>p2.
       bind_err (py_get p2 ''recovery'' (PFloat (Finite 0.5))) (\<lambda>rv.
       bind_err (py_float B rv) (\<lambda>recovery.
       bind_err (py_get state ''contexts'' (PList [])) (\<lambda>cs.
       bind_err (py_iter cs) (\<lambda>records.
       bind_err (load_contexts B records []) (\<lambda>accs.
       Inr (Some accs,
            Some [(''curiosity'', PFloat curiosity), (''recovery'', PFloat recovery)])
       )))))))))))"

text \<open>\<open>CcfPersistence.load\<close>; the pair \<open>(None, None)\<close> is \<open>Inr (None, None)\<close>.\<close>

definition load ::
    "builtins \<Rightarrow> string \<Rightarrow> filesystem
       \<Rightarrow> py_error + ((int \<times> pydict) list option \<times> pydict option)" where
  "load B path fs =
     (case fs path of
        None \<Rightarrow> Inr (None, None)
      | Some Unreadable \<Rightarrow> Inr (None, None)
      | Some (Bad_text t) \<Rightarrow> Inr (None, None)
      | Some Not_utf8 \<Rightarrow> Inl UnicodeDecodeError
      | Some Too_deep \<Rightarrow> Inl RecursionError
      | Some (Json_text state) \<Rightarrow> load_state B state)"

text \<open>
  The populations and personalities the round trip is stated for: each record holds a
  finite float under \<open>coherence\<close> and \<open>earned_floor\<close>, an int under \<open>interaction_count\<close> and a str
  under \<open>last_phase\<close>; the personality holds floats under \<open>curiosity\<close> and \<open>recovery\<close>.
  \<open>record_view\<close> lists those four entries of a record in the order \<open>load\<close> stores them.
\<close>

fun is_float :: "pyval option \<Rightarrow> bool" where
  "is_float (Some (PFloat (Finite r))) = True"
| "is_float v = False"

fun is_int :: "pyval option \<Rightarrow> bool" where
  "is_int (Some (PInt n)) = True"
| "is_int v = False"

fun is_str :: "pyval option \<Rightarrow> bool" where
  "is_str (Some (PStr s)) = True"
| "is_str v = False"

definition typed_record :: "pydict \<Rightarrow> bool" where
  "typed_record d =
     (is_float (map_of d ''coherence'') \<and> is_float (map_of d ''earned_floor'')
      \<and> is_int (map_of d ''interaction_count'') \<and> is_str (map_of d ''last_phase''))"

definition typed_personality :: "pydict \<Rightarrow> bool" where
  "typed_personality p = (is_float (map_of p ''curiosity'') \<and> is_float (map_of p ''recovery''))"

definition record_view :: "pydict \<Rightarrow> pydict" where
  "record_view d =
     [(''coherence'', dict_get d ''coherence'' PNone),
      (''earned_floor'', dict_get d ''earned_floor'' PNone),
      (''interaction_count'', dict_get d ''interaction_count'' PNone),
      (''last_phase'', dict_get d ''last_phase'' PNone)]"





section \<open>Properties of the accumulator\<close>

lemma positive_interaction_inv:
  assumes "acc_inv acc" "0 \<le> curiosity" "curiosity \<le> 1"
  shows "acc_inv (positive_interaction curiosity alone acc)"
    and "earned_floor acc \<le> earned_floor (positive_interaction curiosity alone acc)"
  using assms by (simp_all add: acc_inv_def positive_interaction_def Let_def min_def)

lemma negative_interaction_inv:
  assumes "acc_inv acc" "0 \<le> recovery" "recovery \<le> 1"
  shows "acc_inv (negative_interaction recovery acc)"
    and "earned_floor acc \<le> earned_floor (negative_interaction recovery acc)"
proof -
  define decay where "decay = 0.15 * (1.0 - recovery)"
  have d: "0 \<le> decay" using assms(3) by (simp add: decay_def)
  have c: "coherence (negative_interaction recovery acc)
             = max (earned_floor acc) (coherence acc - decay)"
    and f: "earned_floor (negative_interaction recovery acc) = earned_floor acc"
    by (simp_all add: negative_interaction_def Let_def decay_def)
  show "acc_inv (negative_interaction recovery acc)"
    using assms(1) d unfolding acc_inv_def c f by linarith
  show "earned_floor acc \<le> earned_floor (negative_interaction recovery acc)"
    by (simp add: negative_interaction_def Let_def)
qed

lemma interact_inv:
  assumes "acc_inv acc" "unit_param c"
  shows "acc_inv (interact c acc)" and "earned_floor acc \<le> earned_floor (interact c acc)"
  using assms positive_interaction_inv negative_interaction_inv
  by (cases c; simp)+

lemma negative_interaction_floor:
  "earned_floor acc \<le> coherence (negative_interaction recovery acc)"
  by (simp add: negative_interaction_def Let_def)

lemma states_after_inv:
  assumes "acc_inv acc" "\<forall>c \<in> set cs. unit_param c"
  shows "(\<forall>s \<in> set (states_after acc cs). acc_inv s \<and> earned_floor acc \<le> earned_floor s)
       \<and> sorted_wrt (\<lambda>a b. earned_floor a \<le> earned_floor b) (acc # states_after acc cs)"
  using assms
proof (induction cs arbitrary: acc)
  case Nil
  then show ?case by simp
next
  case (Cons c cs)
  let ?a = "interact c acc"
  have a: "acc_inv ?a" and f: "earned_floor acc \<le> earned_floor ?a"
    using Cons.prems interact_inv by simp_all
  have ih: "(\<forall>s \<in> set (states_after ?a cs). acc_inv s \<and> earned_floor ?a \<le> earned_floor s)
       \<and> sorted_wrt (\<lambda>a b. earned_floor a \<le> earned_floor b) (?a # states_after ?a cs)"
    using Cons.IH [OF a] Cons.prems by simp
  have "earned_floor acc \<le> earned_floor s" if "s \<in> set (states_after ?a cs)" for s
    using ih that f by (meson order_trans)
  then show ?case using a f ih by auto
qed

text \<open>
  C1. From any accumulator with 0 <= earned_floor <= coherence <= 1, along any sequence of
  positive and negative interactions with parameters in [0,1], the earned floor never
  decreases from one state to any later one, every state reached has
  earned_floor <= coherence, and a negative interaction never leaves coherence below the
  floor present when it runs.
\<close>

theorem floor_monotonicity:
  assumes "0 \<le> earned_floor acc" "earned_floor acc \<le> coherence acc" "coherence acc \<le> 1"
    and "\<forall>c \<in> set cs. unit_param c"
  shows "sorted_wrt (\<lambda>a b. earned_floor a \<le> earned_floor b) (acc # states_after acc cs)
       \<and> (\<forall>s \<in> set (states_after acc cs). earned_floor s \<le> coherence s)
       \<and> earned_floor a \<le> coherence (negative_interaction recovery a)"
proof -
  have inv: "acc_inv acc" using assms by (simp add: acc_inv_def)
  have 1: "sorted_wrt (\<lambda>a b. earned_floor a \<le> earned_floor b) (acc # states_after acc cs)"
    using states_after_inv [OF inv assms(4)] by blast
  have 2: "\<forall>s \<in> set (states_after acc cs). earned_floor s \<le> coherence s"
    using states_after_inv [OF inv assms(4)] by (auto simp: acc_inv_def)
  have 3: "earned_floor a \<le> coherence (negative_interaction recovery a)"
    by (rule negative_interaction_floor)
  from 1 2 3 show ?thesis by blast
qed

theorem floor_monotonicity_witness:
  "0 \<le> earned_floor Accumulator_init
   \<and> earned_floor Accumulator_init \<le> coherence Accumulator_init
   \<and> coherence Accumulator_init \<le> 1
   \<and> list_all unit_param [PositiveInteraction 0.5, NegativeInteraction 0.5]
   \<and> sorted_wrt (\<lambda>a b. earned_floor a \<le> earned_floor b)
        (Accumulator_init
           # states_after Accumulator_init [PositiveInteraction 0.5, NegativeInteraction 0.5])
   \<and> list_all (\<lambda>s. earned_floor s \<le> coherence s)
        (states_after Accumulator_init [PositiveInteraction 0.5, NegativeInteraction 0.5])
   \<and> earned_floor Accumulator_init \<le> coherence (negative_interaction 0.5 Accumulator_init)"
proof -
  have h: "0 \<le> earned_floor Accumulator_init"
      "earned_floor Accumulator_init \<le> coherence Accumulator_init"
      "coherence Accumulator_init \<le> 1"
      "\<forall>c \<in> set [PositiveInteraction 0.5, NegativeInteraction 0.5]. unit_param c"
    by (simp_all add: Accumulator_init_def)
  show ?thesis
    unfolding list_all_iff
    using h floor_monotonicity [OF h, of Accumulator_init "0.5"] by blast
qed

text \<open>
  C8. PositiveInteraction(curiosity) sets coherence to min(1, coherence + curiosity*0.12),
  then earned_floor to min(new coherence, earned_floor + curiosity*0.12*0.3), and adds 1 to
  interaction_count.  From the zero accumulator, one positive interaction with curiosity 0.5
  gives coherence 0.06 and earned_floor 0.018; a following negative interaction with
  recovery 0.5 gives coherence max(0.018, 0.06 - 0.075) = 0.018.
\<close>

theorem positive_interaction_values:
  "coherence (positive_interaction curiosity alone acc)
     = min 1.0 (coherence acc + curiosity * 0.12)
   \<and> earned_floor (positive_interaction curiosity alone acc)
     = min (min 1.0 (coherence acc + curiosity * 0.12))
           (earned_floor acc + curiosity * 0.12 * 0.3)
   \<and> interaction_count (positive_interaction curiosity alone acc) = interaction_count acc + 1
   \<and> coherence (positive_interaction 0.5 False Accumulator_init) = 0.06
   \<and> earned_floor (positive_interaction 0.5 False Accumulator_init) = 0.018
   \<and> coherence (negative_interaction 0.5 (positive_interaction 0.5 False Accumulator_init))
     = max 0.018 (0.06 - 0.075)
   \<and> coherence (negative_interaction 0.5 (positive_interaction 0.5 False Accumulator_init))
     = 0.018"
  by (simp add: positive_interaction_def negative_interaction_def Accumulator_init_def Let_def)

section \<open>Properties of the field\<close>

lemma dom_get_or_create:
  "dom (accumulators (snd (get_or_create h fld))) = insert h (dom (accumulators fld))"
  by (auto simp: get_or_create_def split: option.splits)

text \<open>
  C10. The reads effective_coherence, raw_coherence and interaction_count of the field leave
  the field, and so its accumulator dict, as it was; positive_interaction and
  negative_interaction are the calls that add the key.  For a context hash with no
  accumulator the reads return min(instant, 0.0), 0.0 and 0; for instant >= 0 the effective
  coherence of an unseen context is exactly 0.0.
\<close>

theorem reads_do_not_insert:
  "snd (CoherenceFieldPy_effective_coherence h instant fld) = fld
   \<and> snd (CoherenceFieldPy_raw_coherence h fld) = fld
   \<and> snd (CoherenceFieldPy_interaction_count h fld) = fld
   \<and> dom (accumulators (snd (CoherenceFieldPy_positive_interaction h alone fld)))
       = insert h (dom (accumulators fld))
   \<and> dom (accumulators (snd (CoherenceFieldPy_negative_interaction h fld)))
       = insert h (dom (accumulators fld))
   \<and> (accumulators fld h = None \<longrightarrow>
        fst (CoherenceFieldPy_effective_coherence h instant fld) = min instant 0.0
      \<and> fst (CoherenceFieldPy_raw_coherence h fld) = 0.0
      \<and> fst (CoherenceFieldPy_interaction_count h fld) = 0
      \<and> (0 \<le> instant \<longrightarrow> fst (CoherenceFieldPy_effective_coherence h instant fld) = 0.0))"
proof -
  have r: "snd (CoherenceFieldPy_effective_coherence h instant fld) = fld"
      "snd (CoherenceFieldPy_raw_coherence h fld) = fld"
      "snd (CoherenceFieldPy_interaction_count h fld) = fld"
    by (simp_all add: CoherenceFieldPy_effective_coherence_def CoherenceFieldPy_raw_coherence_def
        CoherenceFieldPy_interaction_count_def split: option.splits)
  have p: "dom (accumulators (snd (CoherenceFieldPy_positive_interaction h alone fld)))
       = insert h (dom (accumulators fld))"
    using dom_get_or_create [of h fld]
    by (simp add: CoherenceFieldPy_positive_interaction_def split_beta Let_def)
  have n: "dom (accumulators (snd (CoherenceFieldPy_negative_interaction h fld)))
       = insert h (dom (accumulators fld))"
    using dom_get_or_create [of h fld]
    by (simp add: CoherenceFieldPy_negative_interaction_def split_beta Let_def)
  have u: "fst (CoherenceFieldPy_effective_coherence h instant fld) = min instant 0.0
      \<and> fst (CoherenceFieldPy_raw_coherence h fld) = 0.0
      \<and> fst (CoherenceFieldPy_interaction_count h fld) = 0
      \<and> (0 \<le> instant \<longrightarrow> fst (CoherenceFieldPy_effective_coherence h instant fld) = 0.0)"
    if "accumulators fld h = None"
    using that
    by (simp add: CoherenceFieldPy_effective_coherence_def CoherenceFieldPy_raw_coherence_def
        CoherenceFieldPy_interaction_count_def Let_def)
  from r p n u show ?thesis by blast
qed

theorem reads_do_not_insert_witness:
  "accumulators \<lparr>curiosity_drive = 0.5, recovery_rate = 0.5, accumulators = Map.empty\<rparr> 7 = None
   \<and> (0::real) \<le> 0.8
   \<and> CoherenceFieldPy_effective_coherence 7 0.8
        \<lparr>curiosity_drive = 0.5, recovery_rate = 0.5, accumulators = Map.empty\<rparr>
       = (0.0, \<lparr>curiosity_drive = 0.5, recovery_rate = 0.5, accumulators = Map.empty\<rparr>)
   \<and> CoherenceFieldPy_raw_coherence 7
        \<lparr>curiosity_drive = 0.5, recovery_rate = 0.5, accumulators = Map.empty\<rparr>
       = (0.0, \<lparr>curiosity_drive = 0.5, recovery_rate = 0.5, accumulators = Map.empty\<rparr>)
   \<and> CoherenceFieldPy_interaction_count 7
        \<lparr>curiosity_drive = 0.5, recovery_rate = 0.5, accumulators = Map.empty\<rparr>
       = (0, \<lparr>curiosity_drive = 0.5, recovery_rate = 0.5, accumulators = Map.empty\<rparr>)"
  using reads_do_not_insert
    [of 7 "0.8" "\<lparr>curiosity_drive = 0.5, recovery_rate = 0.5, accumulators = Map.empty\<rparr>"]
  by (simp add: prod_eq_iff)

section \<open>Properties of the classifier\<close>

text \<open>
  C3. Whatever the previous phase: effective coherence >= 0.55 with instant < 0.30 gives
  ProtectiveGuardian; otherwise effective coherence < 0.35 with instant < 0.20 gives
  StartledRetreat.  In particular Classify(0.75, 0.10, QuietlyBeloved) = ProtectiveGuardian
  and Classify(0.10, 0.05, ShyObserver) = StartledRetreat.
\<close>

theorem acute_overrides:
  "(0.55 \<le> e \<and> i < 0.30 \<longrightarrow> classify_phase e i prev = ProtectiveGuardian)
   \<and> (\<not> (0.55 \<le> e' \<and> i' < 0.30) \<and> e' < 0.35 \<and> i' < 0.20 \<longrightarrow>
        classify_phase e' i' prev' = StartledRetreat)
   \<and> classify_phase 0.75 0.10 QuietlyBeloved = ProtectiveGuardian
   \<and> classify_phase 0.10 0.05 ShyObserver = StartledRetreat"
  by (simp add: classify_phase_def thresholds)

theorem acute_overrides_witness:
  "(0.55::real) \<le> 0.6 \<and> (0.25::real) < 0.30
   \<and> classify_phase 0.6 0.25 BuildingTrust = ProtectiveGuardian
   \<and> \<not> ((0.55::real) \<le> 0.2 \<and> (0.1::real) < 0.30) \<and> (0.2::real) < 0.35 \<and> (0.1::real) < 0.20
   \<and> classify_phase 0.2 0.1 QuietlyBeloved = StartledRetreat"
  using acute_overrides [of "0.6" "0.25" BuildingTrust "0.2" "0.1" QuietlyBeloved]
  by simp

text \<open>
  C4, as stated, fails: with previous phase BuildingTrust, effective coherence 0.31 (inside
  [0.30, 0.33]) and instant 0.1 (inside [0,1]) the startle override fires and the phase
  returned is StartledRetreat.
\<close>

theorem hysteresis_any_instant_counterexample:
  "(0.30::real) \<le> 0.31 \<and> (0.31::real) \<le> 0.33 \<and> (0::real) \<le> 0.1 \<and> (0.1::real) \<le> 1
   \<and> classify_phase 0.31 0.1 BuildingTrust = StartledRetreat
   \<and> classify_phase 0.31 0.1 BuildingTrust \<noteq> BuildingTrust"
  by (simp add: classify_phase_def thresholds)

lemma classify_phase_stays_building:
  assumes "0.30 \<le> e" "e \<le> 0.33" "0.20 \<le> i"
  shows "classify_phase e i BuildingTrust = BuildingTrust"
  using assms by (simp add: classify_phase_def thresholds)

lemma phases_after_stay_building:
  assumes "\<forall>(e, i) \<in> set ticks. 0.30 \<le> e \<and> e \<le> 0.33 \<and> 0.20 \<le> i"
  shows "\<forall>p \<in> set (phases_after BuildingTrust ticks). p = BuildingTrust"
  using assms
proof (induction ticks)
  case Nil
  then show ?case by simp
next
  case (Cons t ticks)
  obtain e i where t: "t = (e, i)" by (cases t)
  have "classify_phase e i BuildingTrust = BuildingTrust"
    using Cons.prems t classify_phase_stays_building by simp
  then show ?case using Cons t by simp
qed

text \<open>
  C4, amended.  For previous phase BuildingTrust, every effective coherence in [0.30, 0.33]
  and every instant of at least 0.20, Classify returns BuildingTrust; so along any sequence
  of ticks that stay in that interval with instant >= 0.20, starting from BuildingTrust,
  every phase returned is BuildingTrust.
\<close>

theorem hysteresis_stability:
  "(0.30 \<le> e \<and> e \<le> 0.33 \<and> 0.20 \<le> i \<longrightarrow> classify_phase e i BuildingTrust = BuildingTrust)
   \<and> ((\<forall>(e, i) \<in> set ticks. 0.30 \<le> e \<and> e \<le> 0.33 \<and> 0.20 \<le> i) \<longrightarrow>
        (\<forall>p \<in> set (phases_after BuildingTrust ticks). p = BuildingTrust))"
  using classify_phase_stays_building phases_after_stay_building by blast

theorem hysteresis_stability_witness:
  "(0.30::real) \<le> 0.31 \<and> (0.31::real) \<le> 0.33 \<and> (0.20::real) \<le> 0.8
   \<and> classify_phase 0.31 0.8 BuildingTrust = BuildingTrust
   \<and> list_all (\<lambda>(e, i). 0.30 \<le> e \<and> e \<le> 0.33 \<and> 0.20 \<le> i)
        [(0.30, 0.8), (0.33, 0.8), (0.30::real, 0.2::real)]
   \<and> list_all (\<lambda>p. p = BuildingTrust)
        (phases_after BuildingTrust [(0.30, 0.8), (0.33, 0.8), (0.30, 0.2)])"
proof -
  have h: "\<forall>(e, i) \<in> set [(0.30, 0.8), (0.33, 0.8), (0.30::real, 0.2::real)].
         0.30 \<le> e \<and> e \<le> 0.33 \<and> 0.20 \<le> i"
    by simp
  have p: "\<forall>p \<in> set (phases_after BuildingTrust [(0.30, 0.8), (0.33, 0.8), (0.30, 0.2)]).
         p = BuildingTrust"
    using hysteresis_stability [of "0.31" "0.8" "[(0.30, 0.8), (0.33, 0.8), (0.30, 0.2)]"] h
    by blast
  have c: "classify_phase 0.31 0.8 BuildingTrust = BuildingTrust"
    using hysteresis_stability [of "0.31" "0.8" "[]"] by simp
  have n: "(0.30::real) \<le> 0.31 \<and> (0.31::real) \<le> 0.33 \<and> (0.20::real) \<le> 0.8"
    by simp
  from n c h p show ?thesis
    unfolding list_all_iff by (intro conjI) (erule conjE | assumption)+
qed

section \<open>Properties of the context hash\<close>

lemma mask32_int: "(4294967295::int) = mask 32" by (simp add: mask_eq_exp_minus_1)
lemma mask8_int: "(255::int) = mask 8" by (simp add: mask_eq_exp_minus_1)

lemma word_of_int_and_mask32: "(word_of_int (h AND 0xFFFFFFFF) :: 32 word) = word_of_int h"
  unfolding mask32_int by (simp add: word_of_int_eq_iff flip: take_bit_eq_mask)

lemma word_of_int_byte:
  assumes "n < 4"
  shows "(word_of_int (drop_bit (n * 8) v AND 0xFF) :: 32 word)
       = ucast (ucast (drop_bit (n * 8) (word_of_int v :: 32 word)) :: 8 word)"
  unfolding mask8_int
proof (rule bit_word_eqI)
  fix m assume "m < LENGTH(32)"
  then show "bit (word_of_int (drop_bit (n * 8) v AND mask 8) :: 32 word) m
     = bit (ucast (ucast (drop_bit (n * 8) (word_of_int v :: 32 word)) :: 8 word) :: 32 word) m"
    using assms by (auto simp add: bit_simps simp flip: take_bit_eq_mask)
qed

lemma fnv1a_byte_word:
  assumes "n < 4"
  shows "(word_of_int (fnv1a_byte v h n) :: 32 word)
       = (word_of_int h XOR ucast (ucast (drop_bit (n * 8) (word_of_int v :: 32 word)) :: 8 word)) * 16777619"
proof -
  have "(word_of_int (fnv1a_byte v h n) :: 32 word)
      = word_of_int ((h XOR (drop_bit (n * 8) v AND 0xFF)) * 16777619)"
    unfolding fnv1a_byte_def Let_def FNV_PRIME_def by (rule word_of_int_and_mask32)
  also have "\<dots> = (word_of_int h XOR word_of_int (drop_bit (n * 8) v AND 0xFF)) * 16777619"
    by (simp add: of_int_xor_eq)
  finally show ?thesis using word_of_int_byte [OF assms] by simp
qed

lemma fnv1a_byte_range: "0 \<le> fnv1a_byte v h n \<and> fnv1a_byte v h n < 2 ^ 32"
proof -
  have "fnv1a_byte v h n = take_bit 32 ((h XOR (drop_bit (n * 8) v AND 0xFF)) * FNV_PRIME)"
    unfolding fnv1a_byte_def Let_def mask32_int by (simp add: take_bit_eq_mask)
  then show ?thesis
    using take_bit_int_less_exp [of 32 "(h XOR (drop_bit (n * 8) v AND 0xFF)) * FNV_PRIME"]
    by simp
qed

lemma upt4: "[0 ..< 4] = [0, 1, 2, Suc 2]"
  by (simp add: upt_rec)

lemma fnv1a_value_word:
  "(word_of_int (fnv1a_value h v) :: 32 word)
     = foldl (\<lambda>h b. (h XOR ucast b) * 16777619) (word_of_int h) (spec_le_bytes v)"
  unfolding fnv1a_value_def upt4 spec_le_bytes_def Let_def
  using fnv1a_byte_word [of 0] fnv1a_byte_word [of 1] fnv1a_byte_word [of 2] fnv1a_byte_word [of 3]
  by (simp add: eval_nat_numeral)

lemma fnv1a_value_range:
  "0 \<le> fnv1a_value h v \<and> fnv1a_value h v < 2 ^ 32"
  unfolding fnv1a_value_def upt4 using fnv1a_byte_range by simp

lemma foldl_fnv1a_word:
  "(word_of_int (foldl fnv1a_value h vs) :: 32 word)
     = foldl (\<lambda>h b. (h XOR ucast b) * 16777619) (word_of_int h) (concat (map spec_le_bytes vs))"
  by (induction vs arbitrary: h) (simp_all add: fnv1a_value_word)

lemma foldl_fnv1a_range:
  "0 \<le> h \<Longrightarrow> h < 2 ^ 32 \<Longrightarrow> 0 \<le> foldl fnv1a_value h vs \<and> foldl fnv1a_value h vs < 2 ^ 32"
proof (induction vs arbitrary: h)
  case Nil
  then show ?case by simp
next
  case (Cons v vs)
  have "0 \<le> fnv1a_value h v" "fnv1a_value h v < 2 ^ 32"
    using fnv1a_value_range [of h v] by simp_all
  then show ?case using Cons.IH [of "fnv1a_value h v"] by simp
qed

lemma fnv1a_range: "0 \<le> fnv1a vs \<and> fnv1a vs < 2 ^ 32"
  unfolding fnv1a_def by (rule foldl_fnv1a_range) (simp_all add: FNV_OFFSET_BASIS_def)

lemma fnv1a_refines:
  "fnv1a vs = uint (spec_fnv1a_32 (concat (map spec_le_bytes vs)))"
proof -
  have "(word_of_int (fnv1a vs) :: 32 word) = spec_fnv1a_32 (concat (map spec_le_bytes vs))"
    unfolding fnv1a_def spec_fnv1a_32_def
    by (simp add: foldl_fnv1a_word FNV_OFFSET_BASIS_def)
  moreover have "uint (word_of_int (fnv1a vs) :: 32 word) = take_bit 32 (fnv1a vs)"
    by (simp add: uint_word_of_int_eq)
  ultimately have "uint (spec_fnv1a_32 (concat (map spec_le_bytes vs))) = take_bit 32 (fnv1a vs)"
    by simp
  also have "\<dots> = fnv1a vs"
    using fnv1a_range [of vs] by (simp add: take_bit_int_eq_self)
  finally show ?thesis by simp
qed

text \<open>
  C2. For every valid fingerprint (one that construction accepts), context_hash is the
  function \<open>_fnv1a\<close> of the five fields, equal to 32-bit FNV-1a (offset basis 2166136261,
  prime 16777619) applied byte by byte over the little-endian 4-byte encodings of the five
  fields in declaration order; its result lies in [0, 2^32 - 1]; and two fingerprints with
  equal field tuples hash equal.
\<close>

theorem context_hash_fnv1a:
  assumes "TextContextKey_init topic depth register tod phase = Inr k"
  shows "context_hash k = fnv1a [topic, depth, register, tod, phase]
       \<and> context_hash k = uint (spec_hash k)
       \<and> 0 \<le> context_hash k \<and> context_hash k \<le> 2 ^ 32 - 1
       \<and> (topic_domain k' = topic_domain k \<and> conversation_depth k' = conversation_depth k
          \<and> emotional_register k' = emotional_register k \<and> time_of_day k' = time_of_day k
          \<and> session_phase k' = session_phase k \<longrightarrow> context_hash k' = context_hash k)"
proof -
  have k: "k = \<lparr>topic_domain = topic, conversation_depth = depth,
                emotional_register = register, time_of_day = tod, session_phase = phase\<rparr>"
    using assms by (simp add: TextContextKey_init_def split: if_splits)
  have 1: "context_hash k = fnv1a [topic, depth, register, tod, phase]"
    by (simp add: k context_hash_def)
  have 2: "context_hash k = uint (spec_hash k)"
    unfolding context_hash_def spec_hash_def by (rule fnv1a_refines)
  have 3: "0 \<le> context_hash k \<and> context_hash k \<le> 2 ^ 32 - 1"
    using fnv1a_range [of "[topic, depth, register, tod, phase]"] 1 by simp
  have 4: "context_hash k' = context_hash k"
    if "topic_domain k' = topic_domain k \<and> conversation_depth k' = conversation_depth k
          \<and> emotional_register k' = emotional_register k \<and> time_of_day k' = time_of_day k
          \<and> session_phase k' = session_phase k"
    using that by (simp add: context_hash_def)
  from 1 2 3 4 show ?thesis by blast
qed

theorem context_hash_fnv1a_witness:
  "TextContextKey_init 0 1 0 1 0
     = Inr \<lparr>topic_domain = 0, conversation_depth = 1, emotional_register = 0,
            time_of_day = 1, session_phase = 0\<rparr>
   \<and> context_hash \<lparr>topic_domain = 0, conversation_depth = 1, emotional_register = 0,
                    time_of_day = 1, session_phase = 0\<rparr>
     = uint (spec_hash \<lparr>topic_domain = 0, conversation_depth = 1, emotional_register = 0,
                        time_of_day = 1, session_phase = 0\<rparr>)
   \<and> 0 \<le> context_hash \<lparr>topic_domain = 0, conversation_depth = 1, emotional_register = 0,
                         time_of_day = 1, session_phase = 0\<rparr>
   \<and> context_hash \<lparr>topic_domain = 0, conversation_depth = 1, emotional_register = 0,
                    time_of_day = 1, session_phase = 0\<rparr> \<le> 2 ^ 32 - 1"
proof -
  have h: "TextContextKey_init 0 1 0 1 0
     = Inr \<lparr>topic_domain = 0, conversation_depth = 1, emotional_register = 0,
            time_of_day = 1, session_phase = 0\<rparr>"
    by (simp add: TextContextKey_init_def)
  show ?thesis using h context_hash_fnv1a [OF h] by blast
qed

section \<open>Properties of the derivation from text\<close>

lemma ConversationDepth_from_label_moderate:
  "ConversationDepth_from_label ''moderate'' = Inr 1"
  by (simp add: ConversationDepth_from_label_def lower_def lower_char_def)

text \<open>
  C9 fails on the code.  A call of from_text that does not pass a depth takes the
  parameter's default, the label "moderate", so the resulting conversation_depth is 1
  whatever turn_count is; the turn-count breakpoints are reached only by a depth that is
  neither a str nor an int.
\<close>

theorem from_text_default_depth:
  assumes "from_text hour centroid_argmax text None register turn_count use_embeddings = Inr k"
  shows "conversation_depth k = 1"
proof -
  obtain topic register_int tod phase where
    "TextContextKey_init topic 1 register_int tod phase = Inr k"
    using assms
    by (auto simp: from_text_def Let_def ConversationDepth_from_label_moderate
        split: sum.splits)
  then show ?thesis
    by (auto simp: TextContextKey_init_def split: if_splits)
qed

theorem from_text_default_depth_witness:
  "from_text 10 (\<lambda>_. None) ''hello'' None RegisterNone 0 False
     = Inr \<lparr>topic_domain = 32, conversation_depth = 1, emotional_register = 0,
            time_of_day = 0, session_phase = 0\<rparr>
   \<and> conversation_depth \<lparr>topic_domain = 32, conversation_depth = 1, emotional_register = 0,
            time_of_day = 0, session_phase = 0\<rparr> = 1
   \<and> ConversationDepth_from_turn_count 0 = 0"
proof -
  have h: "from_text 10 (\<lambda>_. None) ''hello'' None RegisterNone 0 False
     = Inr \<lparr>topic_domain = 32, conversation_depth = 1, emotional_register = 0,
            time_of_day = 0, session_phase = 0\<rparr>"
    by code_simp
  have t: "ConversationDepth_from_turn_count 0 = 0"
    by (simp add: ConversationDepth_from_turn_count_def)
  show ?thesis using h t from_text_default_depth [OF h] by blast
qed

section \<open>Properties of the persistence store\<close>

subsection \<open>Atomic save\<close>











subsection \<open>Round trip\<close>

lemma is_float_E: "is_float v \<Longrightarrow> \<exists>r. v = Some (PFloat (Finite r))"
  by (cases v rule: is_float.cases) simp_all
lemma is_int_E: "is_int v \<Longrightarrow> \<exists>n. v = Some (PInt n)"
  by (cases v rule: is_int.cases) simp_all
lemma is_str_E: "is_str v \<Longrightarrow> \<exists>s. v = Some (PStr s)"
  by (cases v rule: is_str.cases) simp_all

lemma typed_record_fields:
  assumes "typed_record d"
  obtains c f n p where "map_of d ''coherence'' = Some (PFloat (Finite c))"
    "map_of d ''earned_floor'' = Some (PFloat (Finite f))"
    "map_of d ''interaction_count'' = Some (PInt n)"
    "map_of d ''last_phase'' = Some (PStr p)"
  using assms is_float_E is_int_E is_str_E unfolding typed_record_def by meson

lemma save_record_typed:
  assumes "typed_record d"
  shows "save_record B (h, d) = Inr (PDict ((''ctx_hash'', PInt h) # record_view d))"
proof -
  from assms obtain c f n p where "map_of d ''coherence'' = Some (PFloat (Finite c))"
    "map_of d ''earned_floor'' = Some (PFloat (Finite f))"
    "map_of d ''interaction_count'' = Some (PInt n)"
    "map_of d ''last_phase'' = Some (PStr p)"
    by (rule typed_record_fields)
  then show ?thesis
    by (simp add: save_record_def record_view_def bind_err_def dict_item_def dict_get_def
        py_str_def Let_def)
qed

lemma load_record_saved:
  assumes "typed_record d"
  shows "load_record B (PDict ((''ctx_hash'', PInt h) # record_view d)) = Inr (h, record_view d)"
proof -
  from assms obtain c f n p where "map_of d ''coherence'' = Some (PFloat (Finite c))"
    "map_of d ''earned_floor'' = Some (PFloat (Finite f))"
    "map_of d ''interaction_count'' = Some (PInt n)"
    "map_of d ''last_phase'' = Some (PStr p)"
    by (rule typed_record_fields)
  then show ?thesis
    by (simp add: load_record_def record_view_def bind_err_def py_item_def py_get_def
        dict_item_def dict_get_def py_str_def)
qed

lemma map_err_save_record:
  assumes "\<forall>(h, d) \<in> set pop. typed_record d"
  shows "map_err (save_record B) pop
       = Inr (map (\<lambda>(h, d). PDict ((''ctx_hash'', PInt h) # record_view d)) pop)"
  using assms
  by (induction pop) (auto simp: bind_err_def save_record_typed)

lemma dict_set_fresh: "k \<notin> fst ` set d \<Longrightarrow> dict_set d k v = d @ [(k, v)]"
  by (induction d) auto

lemma load_contexts_saved:
  assumes "\<forall>(h, d) \<in> set pop. typed_record d" "distinct (map fst accs @ map fst pop)"
  shows "load_contexts B (map (\<lambda>(h, d). PDict ((''ctx_hash'', PInt h) # record_view d)) pop) accs
       = Inr (accs @ map (\<lambda>(h, d). (h, record_view d)) pop)"
  using assms
proof (induction pop arbitrary: accs)
  case Nil
  then show ?case by simp
next
  case (Cons x pop)
  obtain h d where x: "x = (h, d)" by (cases x)
  have t: "typed_record d" using Cons.prems(1) x by simp
  have fresh: "h \<notin> fst ` set accs" using Cons.prems(2) x by auto
  have d: "distinct (map fst (accs @ [(h, record_view d)]) @ map fst pop)"
    using Cons.prems(2) x by auto
  have "load_contexts B (map (\<lambda>(h, d). PDict ((''ctx_hash'', PInt h) # record_view d)) (x # pop)) accs
      = load_contexts B (map (\<lambda>(h, d). PDict ((''ctx_hash'', PInt h) # record_view d)) pop)
          (accs @ [(h, record_view d)])"
    by (simp add: x load_record_saved [OF t] dict_set_fresh [OF fresh])
  also have "\<dots> = Inr ((accs @ [(h, record_view d)]) @ map (\<lambda>(h, d). (h, record_view d)) pop)"
    using Cons.IH [OF _ d] Cons.prems(1) by simp
  finally show ?case by (simp add: x)
qed

lemma save_state_typed:
  assumes "\<forall>(h, d) \<in> set pop. typed_record d" "typed_personality personality"
  shows "save_state B saved_at pop personality ccf_version =
     Inr (PDict [(''version'', PInt CCF_SCHEMA_VERSION),
                 (''ccf_version'', PStr ccf_version),
                 (''saved_at'', PStr saved_at),
                 (''personality'', PDict [(''curiosity'', dict_get personality ''curiosity'' PNone),
                                          (''recovery'', dict_get personality ''recovery'' PNone)]),
                 (''contexts'', PList (map (\<lambda>(h, d). PDict ((''ctx_hash'', PInt h) # record_view d)) pop))])"
proof -
  from assms(2) obtain c r where "map_of personality ''curiosity'' = Some (PFloat (Finite c))"
    "map_of personality ''recovery'' = Some (PFloat (Finite r))"
    unfolding typed_personality_def using is_float_E by meson
  then show ?thesis
    by (simp add: save_state_def bind_err_def dict_get_def map_err_save_record [OF assms(1)])
qed

lemma load_state_saved:
  assumes "\<forall>(h, d) \<in> set pop. typed_record d" "typed_personality personality"
    "distinct (map fst pop)"
  shows "load_state B
     (PDict [(''version'', PInt CCF_SCHEMA_VERSION),
                 (''ccf_version'', PStr ccf_version),
                 (''saved_at'', PStr saved_at),
                 (''personality'', PDict [(''curiosity'', dict_get personality ''curiosity'' PNone),
                                          (''recovery'', dict_get personality ''recovery'' PNone)]),
                 (''contexts'', PList (map (\<lambda>(h, d). PDict ((''ctx_hash'', PInt h) # record_view d)) pop))])
    = Inr (Some (map (\<lambda>(h, d). (h, record_view d)) pop),
           Some [(''curiosity'', dict_get personality ''curiosity'' PNone),
                 (''recovery'', dict_get personality ''recovery'' PNone)])"
proof -
  from assms(2) obtain c r where "map_of personality ''curiosity'' = Some (PFloat (Finite c))"
    "map_of personality ''recovery'' = Some (PFloat (Finite r))"
    unfolding typed_personality_def using is_float_E by meson
  moreover have "load_contexts B (map (\<lambda>(h, d). PDict ((''ctx_hash'', PInt h) # record_view d)) pop) []
       = Inr (map (\<lambda>(h, d). (h, record_view d)) pop)"
    using load_contexts_saved [OF assms(1), of "[]" B] assms(3) by simp
  ultimately show ?thesis
    by (simp add: load_state_def bind_err_def py_get_def dict_get_def CCF_SCHEMA_VERSION_def)
qed


lemma record_view_fields:
  assumes "typed_record d"
  shows "map_of (record_view d) ''coherence'' = map_of d ''coherence''"
    "map_of (record_view d) ''earned_floor'' = map_of d ''earned_floor''"
    "map_of (record_view d) ''interaction_count'' = map_of d ''interaction_count''"
    "map_of (record_view d) ''last_phase'' = map_of d ''last_phase''"
proof -
  from assms obtain c f n p where "map_of d ''coherence'' = Some (PFloat (Finite c))"
    "map_of d ''earned_floor'' = Some (PFloat (Finite f))"
    "map_of d ''interaction_count'' = Some (PInt n)"
    "map_of d ''last_phase'' = Some (PStr p)"
    by (rule typed_record_fields)
  then show "map_of (record_view d) ''coherence'' = map_of d ''coherence''"
    "map_of (record_view d) ''earned_floor'' = map_of d ''earned_floor''"
    "map_of (record_view d) ''interaction_count'' = map_of d ''interaction_count''"
    "map_of (record_view d) ''last_phase'' = map_of d ''last_phase''"
    by (simp_all add: record_view_def dict_get_def)
qed

lemma Accumulator_from_dict_typed:
  assumes "typed_record d"
  shows "\<exists>a. Accumulator_from_dict B d = Inr (Some a)
           \<and> Accumulator_from_dict B (record_view d) = Inr (Some a)"
proof -
  from assms obtain c f n p where "map_of d ''coherence'' = Some (PFloat (Finite c))"
    "map_of d ''earned_floor'' = Some (PFloat (Finite f))"
    "map_of d ''interaction_count'' = Some (PInt n)"
    "map_of d ''last_phase'' = Some (PStr p)"
    by (rule typed_record_fields)
  then show ?thesis
    by (simp add: Accumulator_from_dict_def record_view_def dict_get_def bind_err_def)
qed

lemma map_of_views:
  assumes "distinct (map fst pop)" "(h, d) \<in> set pop"
  shows "map_of (map (\<lambda>(h, d). (h, record_view d)) pop) h = Some (record_view d)"
  using assms by (induction pop) (auto simp: rev_image_eqI)

lemma save_no_fault:
  assumes "save_state B saved_at pop personality ccf_version = Inr state"
  shows "fst (save B saved_at tmp No_fault u pop personality path ccf_version fs) = Inr ()"
    and "last (snd (save B saved_at tmp No_fault u pop personality path ccf_version fs)) path
       = Some (Json_text state)"
  using assms by (simp_all add: save_def Let_def replace_file_def)


text \<open>
  C5. For every population with distinct hashes whose records hold a finite float
  coherence, a finite float earned_floor, an int interaction_count and a str last_phase,
  every personality pair of finite floats and every path, Save without a failure succeeds
  and Load of the path
  afterwards returns a population with exactly the same hashes, in which every record has
  the saved coherence, earned_floor and interaction_count, and the same personality; so
  the effective coherence of the accumulator built from a loaded record is within 0.001
  of the original for any instant.
\<close>

theorem save_load_round_trip:
  assumes "distinct (map fst pop)"
    and "\<forall>(h, d) \<in> set pop. typed_record d"
    and "typed_personality personality"
  shows "\<exists>trace loaded pers.
           save B saved_at tmp No_fault u pop personality path ccf_version fs = (Inr (), trace)
         \<and> load B path (last trace) = Inr (Some loaded, Some pers)
         \<and> map fst loaded = map fst pop
         \<and> (\<forall>(h, d) \<in> set pop. \<exists>d' a a'.
               map_of loaded h = Some d'
             \<and> map_of d' ''coherence'' = map_of d ''coherence''
             \<and> map_of d' ''earned_floor'' = map_of d ''earned_floor''
             \<and> map_of d' ''interaction_count'' = map_of d ''interaction_count''
             \<and> Accumulator_from_dict B d = Inr (Some a)
             \<and> Accumulator_from_dict B d' = Inr (Some a')
             \<and> (\<forall>instant. \<bar>effective_coherence a' instant - effective_coherence a instant\<bar>
                            < 0.001))
         \<and> map_of pers ''curiosity'' = map_of personality ''curiosity''
         \<and> map_of pers ''recovery'' = map_of personality ''recovery''"
proof -
  let ?state = "PDict [(''version'', PInt CCF_SCHEMA_VERSION),
                 (''ccf_version'', PStr ccf_version),
                 (''saved_at'', PStr saved_at),
                 (''personality'', PDict [(''curiosity'', dict_get personality ''curiosity'' PNone),
                                          (''recovery'', dict_get personality ''recovery'' PNone)]),
                 (''contexts'', PList (map (\<lambda>(h, d). PDict ((''ctx_hash'', PInt h) # record_view d)) pop))]"
  let ?loaded = "map (\<lambda>(h, d). (h, record_view d)) pop"
  let ?pers = "[(''curiosity'', dict_get personality ''curiosity'' PNone),
                (''recovery'', dict_get personality ''recovery'' PNone)]"
  let ?sv = "save B saved_at tmp No_fault u pop personality path ccf_version fs"
  have st: "save_state B saved_at pop personality ccf_version = Inr ?state"
    by (rule save_state_typed [OF assms(2,3)])
  have s1: "?sv = (Inr (), snd ?sv)"
    using save_no_fault(1) [OF st, of tmp u path fs] by (simp add: prod_eq_iff)
  have s2: "last (snd ?sv) path = Some (Json_text ?state)"
    by (rule save_no_fault(2) [OF st])
  have l: "load B path (last (snd ?sv)) = Inr (Some ?loaded, Some ?pers)"
    unfolding load_def s2 using load_state_saved [OF assms(2,3,1)] by simp
  have k: "map fst ?loaded = map fst pop"
    by (induction pop) auto
  have r: "\<exists>d' a a'. map_of ?loaded h = Some d'
             \<and> map_of d' ''coherence'' = map_of d ''coherence''
             \<and> map_of d' ''earned_floor'' = map_of d ''earned_floor''
             \<and> map_of d' ''interaction_count'' = map_of d ''interaction_count''
             \<and> Accumulator_from_dict B d = Inr (Some a)
             \<and> Accumulator_from_dict B d' = Inr (Some a')
             \<and> (\<forall>instant. \<bar>effective_coherence a' instant - effective_coherence a instant\<bar>
                            < 0.001)"
    if "(h, d) \<in> set pop" for h d
  proof -
    have t: "typed_record d" using assms(2) that by auto
    obtain a where a: "Accumulator_from_dict B d = Inr (Some a)"
        "Accumulator_from_dict B (record_view d) = Inr (Some a)"
      using Accumulator_from_dict_typed [OF t] by blast
    show ?thesis
      using map_of_views [OF assms(1) that] record_view_fields [OF t] a by auto
  qed
  from assms(3) obtain c rr where "map_of personality ''curiosity'' = Some (PFloat (Finite c))"
    "map_of personality ''recovery'' = Some (PFloat (Finite rr))"
    unfolding typed_personality_def using is_float_E by meson
  then have p: "map_of ?pers ''curiosity'' = map_of personality ''curiosity''"
      "map_of ?pers ''recovery'' = map_of personality ''recovery''"
    by (simp_all add: dict_get_def)
  from s1 l k r p show ?thesis
    by (intro exI [of _ "snd ?sv"] exI [of _ ?loaded] exI [of _ ?pers]) blast
qed

theorem save_load_round_trip_witness:
  "distinct (map fst [(777::int, [(''coherence'', PFloat (Finite 0.4)), (''earned_floor'', PFloat (Finite 0.1)),
                                  (''interaction_count'', PInt 5),
                                  (''last_phase'', PStr ''ShyObserver'')])])
   \<and> list_all (\<lambda>(h, d). typed_record d)
        [(777::int, [(''coherence'', PFloat (Finite 0.4)), (''earned_floor'', PFloat (Finite 0.1)),
                     (''interaction_count'', PInt 5), (''last_phase'', PStr ''ShyObserver'')])]
   \<and> typed_personality [(''curiosity'', PFloat (Finite 0.6)), (''recovery'', PFloat (Finite 0.4))]
   \<and> (\<exists>trace loaded pers.
         save builtins_unused ''now'' ''x.ccf.tmp'' No_fault False
           [(777, [(''coherence'', PFloat (Finite 0.4)), (''earned_floor'', PFloat (Finite 0.1)),
                   (''interaction_count'', PInt 5), (''last_phase'', PStr ''ShyObserver'')])]
           [(''curiosity'', PFloat (Finite 0.6)), (''recovery'', PFloat (Finite 0.4))]
           ''state.json'' ''0.1.4'' Map.empty = (Inr (), trace)
       \<and> load builtins_unused ''state.json'' (last trace) = Inr (Some loaded, Some pers)
       \<and> map fst loaded = [777]
       \<and> map_of pers ''curiosity'' = Some (PFloat (Finite 0.6)))"
proof -
  let ?pop = "[(777::int, [(''coherence'', PFloat (Finite 0.4)), (''earned_floor'', PFloat (Finite 0.1)),
                           (''interaction_count'', PInt 5),
                           (''last_phase'', PStr ''ShyObserver'')])]"
  let ?pers = "[(''curiosity'', PFloat (Finite 0.6)), (''recovery'', PFloat (Finite 0.4))]"
  have h1: "distinct (map fst ?pop)" by simp
  have h2: "\<forall>(h, d) \<in> set ?pop. typed_record d" by (simp add: typed_record_def)
  have h3: "typed_personality ?pers" by (simp add: typed_personality_def)
  have l: "list_all (\<lambda>(h, d). typed_record d) ?pop" using h2 by (simp add: list_all_iff)
  have "\<exists>trace loaded pers.
         save builtins_unused ''now'' ''x.ccf.tmp'' No_fault False ?pop ?pers
           ''state.json'' ''0.1.4'' Map.empty = (Inr (), trace)
       \<and> load builtins_unused ''state.json'' (last trace) = Inr (Some loaded, Some pers)
       \<and> map fst loaded = [777]
       \<and> map_of pers ''curiosity'' = Some (PFloat (Finite 0.6))"
    using save_load_round_trip [OF h1 h2 h3, of builtins_unused "''now''" "''x.ccf.tmp''" False
        "''state.json''" "''0.1.4''" Map.empty]
    by (elim exE conjE) (intro exI conjI, assumption, assumption, simp_all)
  with h1 l h3 show ?thesis by blast
qed


subsection \<open>Failure modes of load\<close>








lemma load_record_not_dict:
  "(\<And>d. r \<noteq> PDict d) \<Longrightarrow> load_record B r = Inl TypeError"
  by (cases r) (auto simp: load_record_def py_item_def bind_err_def)
















end
